theory Spec2Isabelle
  imports Main "HOL-Library.Word"
begin

section \<open>Values shared by the source files\<close>

text \<open>
  A \<open>BufferSource\<close> (\<open>ArrayBuffer\<close>, \<open>Uint8Array\<close>) is a list of octets.
  What JavaScript throws is a value of \<open>js_error\<close>; a function that can throw
  returns \<open>js_error + 'a\<close>, with \<open>Inl\<close> for the exception.
\<close>

type_synonym bytes = "8 word list"

datatype js_error =
    Error string
  | TypeError string
  | RangeError

text \<open>
  A WebCrypto \<open>Algorithm\<close> is a plain JavaScript object: a finite map from property
  names to values. \<open>None\<close> is a property that is absent (reads as \<open>undefined\<close>).
\<close>

datatype js_value =
    JString string
  | JNumber int
  | JObject "(string \<times> js_value) list"

type_synonym algorithm = "string \<rightharpoonup> js_value"

text \<open>
  \<open>Convert\<close> of \<open>@proxyco/pvtsutils\<close> and \<open>PemConverter\<close> are defined outside
  the two files; the functions that call them receive them as parameters.
  \<open>PemConverter.decode\<close> returns one buffer for each object of the text.
\<close>

record Convert =
  isHex :: "string \<Rightarrow> bool"
  FromHex :: "string \<Rightarrow> js_error + bytes"
  isBase64 :: "string \<Rightarrow> bool"
  FromBase64 :: "string \<Rightarrow> js_error + bytes"
  isBase64Url :: "string \<Rightarrow> bool"
  FromBase64Url :: "string \<Rightarrow> js_error + bytes"

record PemConverter =
  isPem :: "string \<Rightarrow> bool"
  decode :: "string \<Rightarrow> js_error + bytes list"

section \<open>\<open>ec_signature_formatter.ts\<close>: the EC signature transcoder\<close>

text \<open>
  \<open>ECDSASigValue\<close> of \<open>@peculiar/asn1-ecc\<close>: the two INTEGER fields, each held as
  the octets of its value.
\<close>

record ECDSASigValue =
  sig_r :: bytes
  sig_s :: bytes

text \<open>
  \<open>AsnConvert\<close> of \<open>@peculiar/asn1-schema\<close> is an external library: the transcoder
  receives its two operations on \<open>ECDSASigValue\<close> as a parameter. \<open>parse\<close> throws
  on octets that are not the encoding of such a structure.
\<close>

record AsnConvert =
  serialize :: "ECDSASigValue \<Rightarrow> bytes"
  parse :: "bytes \<Rightarrow> js_error + ECDSASigValue"

text \<open>
  \<open>AsnEcSignatureFormatter.namedCurveSize\<close> is a static \<open>Map<string, number>\<close>,
  filled by the callers before use; the transcoder only reads it, so it is passed in.
  The sizes are octet counts.
\<close>

type_synonym namedCurveSize = "string \<rightharpoonup> nat"

definition defaultNamedCurveSize :: nat where
  "defaultNamedCurveSize = 32"

text \<open>
  \<open>%TypedArray%.prototype.set(source, offset)\<close> of ECMAScript: a \<open>RangeError\<close> when
  the offset is negative or the source does not fit into the target behind the offset.
\<close>

definition Uint8Array_set :: "bytes \<Rightarrow> bytes \<Rightarrow> int \<Rightarrow> js_error + bytes" where
  "Uint8Array_set target source offset =
     (if offset < 0 then Inl RangeError
      else if int (length target) < int (length source) + offset then Inl RangeError
      else Inr (take (nat offset) target @ source
                @ drop (nat offset + length source) target))"

text \<open>
  \<^verbatim>\<open>const res = new Uint8Array(pointSize); res.set(bytes, pointSize - bytes.length);\<close>
\<close>

definition addPadding :: "nat \<Rightarrow> bytes \<Rightarrow> js_error + bytes" where
  "addPadding pointSize data =
     Uint8Array_set (replicate pointSize 0) data (int pointSize - int (length data))"

text \<open>
  The loop of \<open>removePadding\<close> skips every octet that is falsy (zero) and returns the
  slice from the first other octet on; when it runs off the end, the empty buffer.
\<close>

fun removePadding :: "bytes \<Rightarrow> bytes" where
  "removePadding [] = []"
| "removePadding (b # bs) = (if b = 0 then removePadding bs else b # bs)"

text \<open>
  \<^verbatim>\<open>namedCurveSize.get(namedCurve) || defaultNamedCurveSize\<close>: the default is taken
  when the map has no entry for the value of the property (also when the property is
  absent or not a string, the keys being strings) and when the entry is the falsy \<open>0\<close>.
\<close>

definition pointSizeOf :: "namedCurveSize \<Rightarrow> algorithm \<Rightarrow> nat" where
  "pointSizeOf sizes algorithm =
     (case algorithm ''namedCurve'' of
        Some (JString namedCurve) \<Rightarrow>
          (case sizes namedCurve of
             Some n \<Rightarrow> if n = 0 then defaultNamedCurveSize else n
           | None \<Rightarrow> defaultNamedCurveSize)
      | _ \<Rightarrow> defaultNamedCurveSize)"

text \<open>
  \<open>toAsnSignature\<close>: \<open>None\<close> is the \<open>null\<close> returned for another algorithm family.
  \<open>slice(a, b)\<close> of a \<open>Uint8Array\<close> clamps both ends to the length, as \<open>take\<close> and
  \<open>drop\<close> do.
\<close>

definition toAsnSignature ::
  "AsnConvert \<Rightarrow> namedCurveSize \<Rightarrow> algorithm \<Rightarrow> bytes \<Rightarrow> bytes option" where
  "toAsnSignature asn sizes algorithm signature =
     (if algorithm ''name'' = Some (JString ''ECDSA'') then
        let pointSize = pointSizeOf sizes algorithm;
            r = removePadding (take pointSize signature);
            s = removePadding (take pointSize (drop pointSize signature))
        in Some (serialize asn \<lparr>sig_r = r, sig_s = s\<rparr>)
      else None)"

text \<open>\<open>toWebSignature\<close>: \<open>combine(r, s)\<close> concatenates the two padded coordinates.\<close>

definition toWebSignature ::
  "AsnConvert \<Rightarrow> namedCurveSize \<Rightarrow> algorithm \<Rightarrow> bytes \<Rightarrow> js_error + bytes option" where
  "toWebSignature asn sizes algorithm signature =
     (if algorithm ''name'' = Some (JString ''ECDSA'') then
        (case parse asn signature of
           Inl e \<Rightarrow> Inl e
         | Inr ecSigValue \<Rightarrow>
             let pointSize = pointSizeOf sizes algorithm in
             (case addPadding pointSize (removePadding (sig_r ecSigValue)) of
                Inl e \<Rightarrow> Inl e
              | Inr r \<Rightarrow>
                  (case addPadding pointSize (removePadding (sig_s ecSigValue)) of
                     Inl e \<Rightarrow> Inl e
                   | Inr s \<Rightarrow> Inr (Some (r @ s)))))
      else Inr None)"

section \<open>\<open>ec_signature_formatter.ts\<close>, second part: the certificate generator\<close>

text \<open>Sequencing of calls that can throw: the first exception ends the run.\<close>

fun and_then :: "'e + 'a \<Rightarrow> ('a \<Rightarrow> 'e + 'b) \<Rightarrow> 'e + 'b" where
  "and_then (Inl e) f = Inl e"
| "and_then (Inr x) f = f x"

text \<open>\<open>xs.map(f)\<close> where \<open>f\<close> can throw: the elements are visited from the left.\<close>

fun map_throwing :: "('a \<Rightarrow> 'e + 'b) \<Rightarrow> 'a list \<Rightarrow> 'e + 'b list" where
  "map_throwing f [] = Inr []"
| "map_throwing f (x # xs) =
     and_then (f x) (\<lambda>y. and_then (map_throwing f xs) (\<lambda>ys. Inr (y # ys)))"

text \<open>
  \<open>IAsnSignatureFormatter\<close>: both operations return \<open>null\<close> (\<open>None\<close>) when the
  formatter does not apply; an implementation may throw.
\<close>

record IAsnSignatureFormatter =
  fmt_toAsnSignature :: "algorithm \<Rightarrow> bytes \<Rightarrow> js_error + bytes option"
  fmt_toWebSignature :: "algorithm \<Rightarrow> bytes \<Rightarrow> js_error + bytes option"

definition AsnEcSignatureFormatter ::
  "AsnConvert \<Rightarrow> namedCurveSize \<Rightarrow> IAsnSignatureFormatter" where
  "AsnEcSignatureFormatter asn sizes =
     \<lparr>fmt_toAsnSignature = (\<lambda>algorithm signature.
          Inr (toAsnSignature asn sizes algorithm signature)),
      fmt_toWebSignature = toWebSignature asn sizes\<rparr>"

text \<open>
  The parameter types. A \<open>Date\<close> is its time value; the parsed structures of
  \<open>@peculiar/asn1-x509\<close> that the generator only passes on are kept as octets
  (\<open>Extension\<close>, \<open>SubjectPublicKeyInfo\<close>) or as the list of their components
  (\<open>Name\<close>, empty for \<open>new Name()\<close>).
\<close>

record CryptoKey =
  key_algorithm :: algorithm
  key_handle :: bytes

record CryptoKeyPair =
  pair_publicKey :: CryptoKey
  pair_privateKey :: CryptoKey

record Extension =
  rawData :: bytes

datatype X509CertificateCreateParamsName =
    NameString string
  | NameJson "(string \<times> string list) list list"

record X509CertificateCreateParamsBase =
  serialNumber :: string
  notBefore :: int
  notAfter :: int
  extensions :: "Extension list option"
  signingAlgorithm :: algorithm

record X509CertificateCreateParams = X509CertificateCreateParamsBase +
  subject :: "X509CertificateCreateParamsName option"
  issuer :: "X509CertificateCreateParamsName option"
  publicKey :: CryptoKey
  signingKey :: CryptoKey

record X509CertificateCreateSelfSignedParams = X509CertificateCreateParamsBase +
  name :: "X509CertificateCreateParamsName option"
  keys :: CryptoKeyPair

type_synonym asn1_Name = "bytes list"
type_synonym asn1_Extension = bytes
type_synonym asn1_SubjectPublicKeyInfo = bytes

datatype Version = v1 | v2 | v3

record AlgorithmIdentifier =
  alg_algorithm :: string
  alg_parameters :: "bytes option"

record Validity =
  val_notBefore :: int
  val_notAfter :: int

record TBSCertificate =
  tbs_version :: Version
  tbs_serialNumber :: bytes
  tbs_signature :: AlgorithmIdentifier
  tbs_issuer :: asn1_Name
  tbs_validity :: Validity
  tbs_subject :: asn1_Name
  tbs_subjectPublicKeyInfo :: asn1_SubjectPublicKeyInfo
  tbs_extensions :: "asn1_Extension list"

record Certificate =
  tbsCertificate :: TBSCertificate
  signatureAlgorithm :: AlgorithmIdentifier
  signatureValue :: bytes

datatype X509Certificate = X509Certificate bytes

text \<open>
  What \<open>create\<close> calls and the source file does not define: the crypto provider
  (\<open>crypto.subtle\<close>), \<open>Convert\<close>, \<open>AsnConvert\<close> on the certificate
  structures, \<open>Name\<close>, the algorithm provider and the formatters that the dependency
  container holds (\<open>resolveAll\<close> lists them in the order of their registration), and
  the constructor of \<open>X509Certificate\<close>.
\<close>

record Externals =
  exportKey :: "string \<Rightarrow> CryptoKey \<Rightarrow> js_error + bytes"
  sign :: "algorithm \<Rightarrow> CryptoKey \<Rightarrow> bytes \<Rightarrow> js_error + bytes"
  convert :: Convert
  parseExtension :: "bytes \<Rightarrow> js_error + asn1_Extension"
  parseSubjectPublicKeyInfo :: "bytes \<Rightarrow> js_error + asn1_SubjectPublicKeyInfo"
  parseName :: "X509CertificateCreateParamsName \<Rightarrow> js_error + asn1_Name"
  toAsnAlgorithm :: "algorithm \<Rightarrow> js_error + AlgorithmIdentifier"
  serializeTBSCertificate :: "TBSCertificate \<Rightarrow> bytes"
  serializeCertificate :: "Certificate \<Rightarrow> bytes"
  resolveAllSignatureFormatters :: "js_error + IAsnSignatureFormatter list"
  newX509Certificate :: "bytes \<Rightarrow> js_error + X509Certificate"

text \<open>
  \<open>if (params.subject)\<close>: an absent name is falsy, and so is the empty string; an
  array is truthy.
\<close>

fun truthy_name :: "X509CertificateCreateParamsName \<Rightarrow> bool" where
  "truthy_name (NameString s) = (s \<noteq> [])"
| "truthy_name (NameJson j) = True"

definition assign_name ::
  "Externals \<Rightarrow> X509CertificateCreateParamsName option \<Rightarrow> (asn1_Name \<Rightarrow> Certificate)
     \<Rightarrow> Certificate \<Rightarrow> js_error + Certificate" where
  "assign_name ext given assign asnX509 =
     (case given of
        None \<Rightarrow> Inr asnX509
      | Some n \<Rightarrow>
          if truthy_name n then and_then (parseName ext n) (\<lambda>parsed. Inr (assign parsed))
          else Inr asnX509)"

text \<open>
  \<^verbatim>\<open>{ ...params.signingAlgorithm, ...params.signingKey.algorithm }\<close>: the properties
  of the first object, then those of the second, a later one replacing an earlier one
  of the same name.
\<close>

definition mergedSigningAlgorithm :: "'a X509CertificateCreateParams_scheme \<Rightarrow> algorithm" where
  "mergedSigningAlgorithm params = signingAlgorithm params ++ key_algorithm (signingKey params)"

text \<open>
  The first statements of \<open>create\<close>: the structure with the parameters in it, then the
  subject and the issuer when given.
\<close>

definition create_structure ::
  "Externals \<Rightarrow> 'a X509CertificateCreateParams_scheme \<Rightarrow> js_error + Certificate" where
  "create_structure ext params =
     and_then (exportKey ext ''spki'' (publicKey params)) (\<lambda>spki.
     and_then (FromHex (convert ext) (serialNumber params)) (\<lambda>serial.
     and_then (map_throwing (\<lambda>e. parseExtension ext (rawData e))
                 (case extensions params of None \<Rightarrow> [] | Some es \<Rightarrow> es)) (\<lambda>exts.
     and_then (parseSubjectPublicKeyInfo ext spki) (\<lambda>info.
     let asnX509 =
           \<lparr>tbsCertificate =
              \<lparr>tbs_version = v3,
               tbs_serialNumber = serial,
               tbs_signature = \<lparr>alg_algorithm = [], alg_parameters = None\<rparr>,
               tbs_issuer = [],
               tbs_validity = \<lparr>val_notBefore = notBefore params,
                                val_notAfter = notAfter params\<rparr>,
               tbs_subject = [],
               tbs_subjectPublicKeyInfo = info,
               tbs_extensions = exts\<rparr>,
            signatureAlgorithm = \<lparr>alg_algorithm = [], alg_parameters = None\<rparr>,
            signatureValue = []\<rparr>
     in
     and_then (assign_name ext (subject params)
                 (\<lambda>n. asnX509\<lparr>tbsCertificate := (tbsCertificate asnX509)\<lparr>tbs_subject := n\<rparr>\<rparr>)
                 asnX509) (\<lambda>asnX509.
     assign_name ext (issuer params)
       (\<lambda>n. asnX509\<lparr>tbsCertificate := (tbsCertificate asnX509)\<lparr>tbs_issuer := n\<rparr>\<rparr>)
       asnX509)))))"

text \<open>
  \<open>// Set signing algorithm\<close> and \<open>// Sign\<close>: the one identifier goes into both
  fields, the body is serialized and signed. The result is the structure and the raw
  signature.
\<close>

definition create_sign ::
  "Externals \<Rightarrow> 'a X509CertificateCreateParams_scheme \<Rightarrow> js_error + Certificate \<times> bytes" where
  "create_sign ext params =
     and_then (create_structure ext params) (\<lambda>asnX509.
     let signingAlgorithm = mergedSigningAlgorithm params in
     and_then (toAsnAlgorithm ext signingAlgorithm) (\<lambda>algId.
     let asnX509 = asnX509\<lparr>signatureAlgorithm := algId\<rparr>;
         asnX509 = asnX509\<lparr>tbsCertificate := (tbsCertificate asnX509)\<lparr>tbs_signature := algId\<rparr>\<rparr>;
         tbs = serializeTBSCertificate ext (tbsCertificate asnX509)
     in
     and_then (sign ext signingAlgorithm (signingKey params) tbs) (\<lambda>signature.
     Inr (asnX509, signature))))"

text \<open>
  The loop over the formatters: it stops at the first result that is not \<open>null\<close> (a
  buffer is truthy, also an empty one) and leaves \<open>null\<close> when the list ends.
\<close>

fun formatters_loop ::
  "IAsnSignatureFormatter list \<Rightarrow> algorithm \<Rightarrow> bytes \<Rightarrow> js_error + bytes option" where
  "formatters_loop [] algorithm signature = Inr None"
| "formatters_loop (signatureFormatter # rest) algorithm signature =
     and_then (fmt_toAsnSignature signatureFormatter algorithm signature) (\<lambda>asnSignature.
       case asnSignature of
         Some a \<Rightarrow> Inr (Some a)
       | None \<Rightarrow> formatters_loop rest algorithm signature)"

text \<open>
  \<open>// Convert WebCrypto signature to ASN.1 format\<close>: the registered formatters in
  reverse, the loop, and the \<open>throw\<close> when nothing came out of it.
\<close>

definition convert_signature :: "Externals \<Rightarrow> algorithm \<Rightarrow> bytes \<Rightarrow> js_error + bytes" where
  "convert_signature ext algorithm signature =
     and_then (resolveAllSignatureFormatters ext) (\<lambda>registered.
     let signatureFormatters = rev registered in
     and_then (formatters_loop signatureFormatters algorithm signature) (\<lambda>asnSignature.
     case asnSignature of
       None \<Rightarrow> Inl (Error ''Cannot convert ASN.1 signature value to WebCrypto format'')
     | Some a \<Rightarrow> Inr a))"

text \<open>The structure as it is when \<open>create\<close> serializes it.\<close>

definition create_asnX509 ::
  "Externals \<Rightarrow> 'a X509CertificateCreateParams_scheme \<Rightarrow> js_error + Certificate" where
  "create_asnX509 ext params =
     and_then (create_sign ext params) (\<lambda>(asnX509, signature).
     and_then (convert_signature ext (mergedSigningAlgorithm params) signature) (\<lambda>asnSignature.
     Inr (asnX509\<lparr>signatureValue := asnSignature\<rparr>)))"

definition create ::
  "Externals \<Rightarrow> 'a X509CertificateCreateParams_scheme \<Rightarrow> js_error + X509Certificate" where
  "create ext params =
     and_then (create_asnX509 ext params) (\<lambda>asnX509.
     newX509Certificate ext (serializeCertificate ext asnX509))"

definition selfSignedParams ::
  "'a X509CertificateCreateSelfSignedParams_scheme \<Rightarrow> X509CertificateCreateParams" where
  "selfSignedParams params =
     \<lparr>serialNumber = serialNumber params,
      notBefore = notBefore params,
      notAfter = notAfter params,
      extensions = extensions params,
      signingAlgorithm = signingAlgorithm params,
      subject = name params,
      issuer = name params,
      publicKey = pair_publicKey (keys params),
      signingKey = pair_privateKey (keys params)\<rparr>"

definition createSelfSigned ::
  "Externals \<Rightarrow> 'a X509CertificateCreateSelfSignedParams_scheme \<Rightarrow> js_error + X509Certificate" where
  "createSelfSigned ext params = create ext (selfSignedParams params)"

section \<open>\<open>PemData\<close>: decoding the textual forms\<close>

datatype AsnEncodedType = BufferSource bytes | JsString string

text \<open>
  \<open>toArrayBuffer\<close>. Element \<open>0\<close> of an empty array is \<open>undefined\<close>, here \<open>None\<close>;
  every other result is a buffer.
\<close>

definition toArrayBuffer ::
  "PemConverter \<Rightarrow> Convert \<Rightarrow> AsnEncodedType \<Rightarrow> js_error + bytes option" where
  "toArrayBuffer pem c raw =
     (case raw of
        JsString text \<Rightarrow>
          if isPem pem text then
            and_then (decode pem text) (\<lambda>objects.
              Inr (case objects of [] \<Rightarrow> None | first # others \<Rightarrow> Some first))
          else if isHex c text then and_then (FromHex c text) (\<lambda>b. Inr (Some b))
          else if isBase64 c text then and_then (FromBase64 c text) (\<lambda>b. Inr (Some b))
          else if isBase64Url c text then and_then (FromBase64Url c text) (\<lambda>b. Inr (Some b))
          else Inl (TypeError
            ''Unsupported format of 'raw' argument. Must be one of DER, PEM, HEX, Base64, or Base4Url'')
      | BufferSource b \<Rightarrow> Inr (Some b))"

text \<open>
  The constructor of \<open>PemData\<close>: an encoded argument goes through \<open>toArrayBuffer\<close>
  to the constructor of \<open>AsnData\<close> (\<open>super_raw\<close>, with the type argument in it), any
  other argument goes there as it is (\<open>super_asn\<close>).
\<close>

datatype 't PemDataArg = Encoded AsnEncodedType | Structure 't

definition PemData_constructor ::
  "PemConverter \<Rightarrow> Convert \<Rightarrow> (bytes option \<Rightarrow> js_error + 'o) \<Rightarrow> ('t \<Rightarrow> js_error + 'o)
     \<Rightarrow> 't PemDataArg \<Rightarrow> js_error + 'o" where
  "PemData_constructor pem c super_raw super_asn arg =
     (case arg of
        Encoded raw \<Rightarrow> and_then (toArrayBuffer pem c raw) super_raw
      | Structure asn \<Rightarrow> super_asn asn)"

section \<open>The structure codec on signature values\<close>

text \<open>
  Modelled from the spec: the external structure codec (\<open>AsnConvert\<close> of
  \<open>@peculiar/asn1-schema\<close>) on \<open>ECDSASigValue\<close>, which the repository imports and
  does not contain. The spec describes it as deterministic and canonical
  (DER-equivalent): a SEQUENCE of two INTEGERs, each with definite length, and with the
  single zero octet in front of a magnitude whose first octet has its high bit set. The
  value zero, which the transcoder hands over as the empty magnitude, is one zero octet.
  The parser returns the content octets of the two INTEGERs as they stand.
\<close>

function nat_be :: "nat \<Rightarrow> bytes" where
  "nat_be n = (if n = 0 then [] else nat_be (n div 256) @ [of_nat (n mod 256)])"
  by pat_completeness auto
termination
  by (relation "measure id") auto

declare nat_be.simps [simp del]

definition be_nat :: "bytes \<Rightarrow> nat" where
  "be_nat bs = foldl (\<lambda>acc b. acc * 256 + unat b) 0 bs"

definition der_length :: "nat \<Rightarrow> bytes" where
  "der_length n =
     (if n < 128 then [of_nat n]
      else let octets = nat_be n in of_nat (128 + length octets) # octets)"

definition der_tlv :: "8 word \<Rightarrow> bytes \<Rightarrow> bytes" where
  "der_tlv tag content = tag # der_length (length content) @ content"

definition der_integer :: "bytes \<Rightarrow> bytes" where
  "der_integer magnitude =
     der_tlv 2 (case magnitude of
                  [] \<Rightarrow> [0]
                | b # _ \<Rightarrow> if 128 \<le> b then 0 # magnitude else magnitude)"

definition der_serialize :: "ECDSASigValue \<Rightarrow> bytes" where
  "der_serialize v = der_tlv 48 (der_integer (sig_r v) @ der_integer (sig_s v))"

text \<open>Reading one element with the expected tag: its content and what follows it.\<close>

definition der_read :: "8 word \<Rightarrow> bytes \<Rightarrow> js_error + bytes \<times> bytes" where
  "der_read tag bs =
     (case bs of
        t # l # rest \<Rightarrow>
          if t \<noteq> tag then Inl (Error ''ASN.1: unexpected tag'')
          else if l < 128 then
            (if unat l \<le> length rest
             then Inr (take (unat l) rest, drop (unat l) rest)
             else Inl (Error ''ASN.1: end of input''))
          else
            (let k = unat l - 128; n = be_nat (take k rest); body = drop k rest
             in if k \<le> length rest \<and> n \<le> length body
                then Inr (take n body, drop n body)
                else Inl (Error ''ASN.1: end of input''))
      | _ \<Rightarrow> Inl (Error ''ASN.1: end of input''))"

definition der_parse :: "bytes \<Rightarrow> js_error + ECDSASigValue" where
  "der_parse bs =
     and_then (der_read 48 bs) (\<lambda>(content, after).
     if after \<noteq> [] then Inl (Error ''ASN.1: trailing octets'')
     else and_then (der_read 2 content) (\<lambda>(r, content).
          and_then (der_read 2 content) (\<lambda>(s, content).
          if content \<noteq> [] then Inl (Error ''ASN.1: trailing octets'')
          else Inr \<lparr>sig_r = r, sig_s = s\<rparr>)))"

definition DerConvert :: AsnConvert where
  "DerConvert = \<lparr>serialize = der_serialize, parse = der_parse\<rparr>"

section \<open>Test doubles and concrete requests\<close>

text \<open>
  Stand-ins for the external services, for running the functions on concrete inputs.
  The classifiers look at the characters of the text only, and each decoder returns a
  fixed buffer that tells which one was called; the text with the PEM header decodes to
  two objects. A key is exported as its handle, the signer returns a fixed signature of 64 octets, the
  algorithm provider names the identifier after the algorithm, the serializers return
  one field of their argument, and the parsers return their argument.
\<close>

definition stub_Convert :: Convert where
  "stub_Convert =
     \<lparr>isHex = (\<lambda>text. text \<noteq> [] \<and> list_all (\<lambda>ch. ch \<in> set ''0123456789abcdefABCDEF'') text),
      FromHex = (\<lambda>text. Inr [16]),
      isBase64 = (\<lambda>text. length text mod 4 = 0 \<and> list_all (\<lambda>ch. ch \<in> set
        ''ABCDEFGHIJKLMNOPQRSTUVWXYZabcdefghijklmnopqrstuvwxyz0123456789+/='') text),
      FromBase64 = (\<lambda>text. Inr [64]),
      isBase64Url = (\<lambda>text. text \<noteq> [] \<and> list_all (\<lambda>ch. ch \<in> set
        ''ABCDEFGHIJKLMNOPQRSTUVWXYZabcdefghijklmnopqrstuvwxyz0123456789-_'') text),
      FromBase64Url = (\<lambda>text. Inr [65])\<rparr>"

definition stub_PemConverter :: PemConverter where
  "stub_PemConverter =
     \<lparr>isPem = (\<lambda>text. take 11 text = ''-----BEGIN ''),
      decode = (\<lambda>text. Inr [[48, 0], [48, 1, 7]])\<rparr>"

definition stub_externals :: "js_error + IAsnSignatureFormatter list \<Rightarrow> Externals" where
  "stub_externals registered =
     \<lparr>exportKey = (\<lambda>format key. Inr (key_handle key)),
      sign = (\<lambda>algorithm key tbs. Inr (replicate 32 1 @ replicate 32 2)),
      convert = stub_Convert,
      parseExtension = Inr,
      parseSubjectPublicKeyInfo = Inr,
      parseName = (\<lambda>given. Inr [[1]]),
      toAsnAlgorithm = (\<lambda>algorithm.
        case algorithm ''name'' of
          Some (JString n) \<Rightarrow> Inr \<lparr>alg_algorithm = n, alg_parameters = None\<rparr>
        | _ \<Rightarrow> Inl (Error ''Cannot convert WebCrypto algorithm to ASN.1 algorithm'')),
      serializeTBSCertificate = tbs_serialNumber,
      serializeCertificate = signatureValue,
      resolveAllSignatureFormatters = registered,
      newX509Certificate = (\<lambda>raw. Inr (X509Certificate raw))\<rparr>"

text \<open>Two formatters that accept every algorithm and one that accepts none.\<close>

definition formatter_F1 :: IAsnSignatureFormatter where
  "formatter_F1 =
     \<lparr>fmt_toAsnSignature = (\<lambda>algorithm signature. Inr (Some [1])),
      fmt_toWebSignature = (\<lambda>algorithm signature. Inr (Some [1]))\<rparr>"

definition formatter_F2 :: IAsnSignatureFormatter where
  "formatter_F2 =
     \<lparr>fmt_toAsnSignature = (\<lambda>algorithm signature. Inr (Some [2])),
      fmt_toWebSignature = (\<lambda>algorithm signature. Inr (Some [2]))\<rparr>"

definition formatter_declining :: IAsnSignatureFormatter where
  "formatter_declining =
     \<lparr>fmt_toAsnSignature = (\<lambda>algorithm signature. Inr None),
      fmt_toWebSignature = (\<lambda>algorithm signature. Inr None)\<rparr>"

text \<open>
  A request signed with an EC key, and one signed with an RSA key, whose algorithm
  carries a hash of its own while the caller names another one.
\<close>

definition ec_key :: CryptoKey where
  "ec_key =
     \<lparr>key_algorithm = [''name'' \<mapsto> JString ''ECDSA'', ''namedCurve'' \<mapsto> JString ''P-256''],
      key_handle = [4]\<rparr>"

definition ec_request :: X509CertificateCreateParams where
  "ec_request =
     \<lparr>serialNumber = ''01'', notBefore = 0, notAfter = 86400000, extensions = None,
      signingAlgorithm = [''name'' \<mapsto> JString ''ECDSA'', ''hash'' \<mapsto> JString ''SHA-256''],
      subject = Some (NameString ''CN=Test''), issuer = Some (NameString ''CN=Test''),
      publicKey = ec_key, signingKey = ec_key\<rparr>"

definition ec_self_signed_request :: X509CertificateCreateSelfSignedParams where
  "ec_self_signed_request =
     \<lparr>serialNumber = ''01'', notBefore = 0, notAfter = 86400000, extensions = None,
      signingAlgorithm = [''name'' \<mapsto> JString ''ECDSA'', ''hash'' \<mapsto> JString ''SHA-256''],
      name = Some (NameString ''CN=Test''),
      keys = \<lparr>pair_publicKey = ec_key, pair_privateKey = ec_key\<rparr>\<rparr>"

definition rsa_key :: CryptoKey where
  "rsa_key =
     \<lparr>key_algorithm =
        [''name'' \<mapsto> JString ''RSASSA-PKCS1-v1_5'',
         ''modulusLength'' \<mapsto> JNumber 2048,
         ''hash'' \<mapsto> JObject [(''name'', JString ''SHA-256'')]],
      key_handle = [5]\<rparr>"

definition rsa_request :: X509CertificateCreateParams where
  "rsa_request =
     \<lparr>serialNumber = ''01'', notBefore = 0, notAfter = 86400000, extensions = None,
      signingAlgorithm =
        [''name'' \<mapsto> JString ''RSASSA-PKCS1-v1_5'', ''hash'' \<mapsto> JString ''SHA-512''],
      subject = Some (NameString ''CN=Test''), issuer = Some (NameString ''CN=Test''),
      publicKey = rsa_key, signingKey = rsa_key\<rparr>"

section \<open>Padding and stripping\<close>

lemma removePadding_dropWhile: "removePadding bs = dropWhile (\<lambda>b. b = 0) bs"
  by (induction bs) simp_all

lemma removePadding_length: "length (removePadding bs) \<le> length bs"
  by (induction bs) simp_all

lemma removePadding_idem: "removePadding (removePadding bs) = removePadding bs"
  by (induction bs) simp_all

lemma removePadding_split:
  "replicate (length bs - length (removePadding bs)) 0 @ removePadding bs = bs"
proof (induction bs)
  case Nil
  show ?case by simp
next
  case (Cons b bs)
  have le: "length (removePadding bs) \<le> length bs"
    by (rule removePadding_length)
  show ?case
  proof (cases "b = 0")
    case True
    from le have "Suc (length bs) - length (removePadding bs)
                  = Suc (length bs - length (removePadding bs))"
      by simp
    with True Cons.IH show ?thesis by simp
  next
    case False
    then show ?thesis by simp
  qed
qed

lemma addPadding_fits:
  assumes "length data \<le> pointSize"
  shows "addPadding pointSize data = Inr (replicate (pointSize - length data) 0 @ data)"
  using assms by (simp add: addPadding_def Uint8Array_set_def nat_diff_distrib')

lemma addPadding_too_long:
  assumes "pointSize < length data"
  shows "addPadding pointSize data = Inl RangeError"
  using assms by (simp add: addPadding_def Uint8Array_set_def)

lemma addPadding_removePadding:
  "addPadding (length bs) (removePadding bs) = Inr bs"
  by (simp add: addPadding_fits removePadding_length removePadding_split)

section \<open>The transcoder under an ECDSA algorithm\<close>

lemma pointSizeOf_registered:
  assumes "algorithm ''namedCurve'' = Some (JString curve)"
    and "sizes curve = Some P" and "0 < P"
  shows "pointSizeOf sizes algorithm = P"
  using assms by (simp add: pointSizeOf_def)

lemma pointSizeOf_unregistered:
  assumes "algorithm ''namedCurve'' = Some (JString curve)" and "sizes curve = None"
  shows "pointSizeOf sizes algorithm = 32"
  using assms by (simp add: pointSizeOf_def defaultNamedCurveSize_def)

lemma toAsnSignature_ECDSA:
  assumes "algorithm ''name'' = Some (JString ''ECDSA'')"
  shows "toAsnSignature asn sizes algorithm sg =
           Some (serialize asn
             \<lparr>sig_r = removePadding (take (pointSizeOf sizes algorithm) sg),
              sig_s = removePadding (take (pointSizeOf sizes algorithm)
                        (drop (pointSizeOf sizes algorithm) sg))\<rparr>)"
  using assms by (simp add: toAsnSignature_def Let_def)

lemma toWebSignature_ECDSA:
  assumes "algorithm ''name'' = Some (JString ''ECDSA'')"
  shows "toWebSignature asn sizes algorithm structured =
           and_then (parse asn structured) (\<lambda>v.
           and_then (addPadding (pointSizeOf sizes algorithm) (removePadding (sig_r v))) (\<lambda>r.
           and_then (addPadding (pointSizeOf sizes algorithm) (removePadding (sig_s v))) (\<lambda>s.
           Inr (Some (r @ s)))))"
  using assms by (simp add: toWebSignature_def Let_def split: sum.splits)

lemma transcode_roundtrip:
  assumes ecdsa: "algorithm ''name'' = Some (JString ''ECDSA'')"
    and lenR: "length R = pointSizeOf sizes algorithm"
    and lenS: "length S = pointSizeOf sizes algorithm"
    and codec: "parse asn (serialize asn \<lparr>sig_r = removePadding R, sig_s = removePadding S\<rparr>)
                  = Inr parsed"
    and valR: "removePadding (sig_r parsed) = removePadding R"
    and valS: "removePadding (sig_s parsed) = removePadding S"
  shows "toAsnSignature asn sizes algorithm (R @ S)
           = Some (serialize asn \<lparr>sig_r = removePadding R, sig_s = removePadding S\<rparr>)"
    and "toWebSignature asn sizes algorithm
           (serialize asn \<lparr>sig_r = removePadding R, sig_s = removePadding S\<rparr>)
           = Inr (Some (R @ S))"
proof -
  show "toAsnSignature asn sizes algorithm (R @ S)
          = Some (serialize asn \<lparr>sig_r = removePadding R, sig_s = removePadding S\<rparr>)"
    using lenR lenS ecdsa by (simp add: toAsnSignature_ECDSA)
  have padR: "addPadding (pointSizeOf sizes algorithm) (removePadding R) = Inr R"
    using addPadding_removePadding [of R] lenR by simp
  have padS: "addPadding (pointSizeOf sizes algorithm) (removePadding S) = Inr S"
    using addPadding_removePadding [of S] lenS by simp
  show "toWebSignature asn sizes algorithm
          (serialize asn \<lparr>sig_r = removePadding R, sig_s = removePadding S\<rparr>)
          = Inr (Some (R @ S))"
    using ecdsa by (simp add: toWebSignature_ECDSA codec valR valS padR padS)
qed

section \<open>The structure codec returns the integers it was given\<close>

text \<open>
  What the round trip needs from the codec: parsing the octets that were serialized for
  two magnitudes gives integers of the same values. The codec modelled above does so,
  with or without the zero octet in front.
\<close>

lemma nat_be_0: "nat_be 0 = []"
  by (subst nat_be.simps) simp

lemma nat_be_pos: "0 < n \<Longrightarrow> nat_be n = nat_be (n div 256) @ [of_nat (n mod 256)]"
  by (subst nat_be.simps) simp

lemma be_nat_append: "be_nat (bs @ [b]) = be_nat bs * 256 + unat b"
  by (simp add: be_nat_def)

lemma be_nat_nat_be: "be_nat (nat_be n) = n"
proof (induction n rule: nat_be.induct)
  case (1 n)
  show ?case
  proof (cases "n = 0")
    case True
    then show ?thesis by (simp add: be_nat_def nat_be_0)
  next
    case False
    have "unat (of_nat (n mod 256) :: 8 word) = n mod 256"
      by (simp add: unat_of_nat)
    with False "1.IH" show ?thesis
      by (simp add: nat_be_pos be_nat_append)
  qed
qed

lemma length_nat_be: "n < 256 ^ k \<Longrightarrow> length (nat_be n) \<le> k"
proof (induction n arbitrary: k rule: nat_be.induct)
  case (1 n)
  show ?case
  proof (cases "n = 0")
    case True
    then show ?thesis by (simp add: nat_be_0)
  next
    case False
    with "1.prems" obtain j where k: "k = Suc j"
      by (cases k) auto
    from "1.prems" k have "n div 256 < 256 ^ j"
      by (simp add: less_mult_imp_div_less mult.commute)
    with False "1.IH" have "length (nat_be (n div 256)) \<le> j" by simp
    with False k show ?thesis
      by (simp add: nat_be_pos)
  qed
qed

lemma der_read_short:
  assumes "l < 128" and "unat l = length content"
  shows "der_read tag (tag # l # content @ rest) = Inr (content, rest)"
  using assms by (simp add: der_read_def)

lemma der_read_long:
  assumes "\<not> l < 128" and "unat l - 128 = length octets"
    and "be_nat octets = length content"
  shows "der_read tag (tag # l # octets @ content @ rest) = Inr (content, rest)"
  using assms by (simp add: der_read_def Let_def)

lemma der_read_der_tlv:
  assumes "length content < 2 ^ 64"
  shows "der_read tag (der_tlv tag content @ rest) = Inr (content, rest)"
proof (cases "length content < 128")
  case True
  define l :: "8 word" where "l = of_nat (length content)"
  from True have u: "unat l = length content"
    by (simp add: l_def unat_of_nat)
  with True have "l < 128"
    by (simp add: word_less_nat_alt)
  then have "der_read tag (tag # l # content @ rest) = Inr (content, rest)"
    using u by (rule der_read_short)
  moreover from True have "der_tlv tag content = tag # l # content"
    by (simp add: der_tlv_def der_length_def l_def)
  ultimately show ?thesis by simp
next
  case False
  define octets where "octets = nat_be (length content)"
  define l :: "8 word" where "l = of_nat (128 + length octets)"
  from assms have "length content < 256 ^ 8" by simp
  then have len: "length octets \<le> 8"
    unfolding octets_def by (rule length_nat_be)
  have "unat l = (128 + length octets) mod 2 ^ LENGTH(8)"
    unfolding l_def by (rule unat_of_nat)
  with len have u: "unat l = 128 + length octets"
    by simp
  then have nl: "\<not> l < 128"
    by (simp add: word_less_nat_alt)
  from u have k: "unat l - 128 = length octets" by simp
  have v: "be_nat octets = length content"
    by (simp add: octets_def be_nat_nat_be)
  have "der_read tag (tag # l # octets @ content @ rest) = Inr (content, rest)"
    using nl k v by (rule der_read_long)
  moreover from False have "der_tlv tag content = tag # l # octets @ content"
    by (simp add: der_tlv_def der_length_def l_def octets_def Let_def)
  ultimately show ?thesis by simp
qed

lemma length_der_tlv:
  assumes "length content < 2 ^ 32"
  shows "length (der_tlv tag content) \<le> length content + 10"
proof -
  from assms have "length content < 256 ^ 8" by simp
  then have "length (nat_be (length content)) \<le> 8" by (rule length_nat_be)
  then show ?thesis by (simp add: der_tlv_def der_length_def Let_def)
qed

text \<open>The content octets of an INTEGER for a magnitude.\<close>

lemma der_integer_content:
  "\<exists>content. der_integer magnitude = der_tlv 2 content
     \<and> removePadding content = removePadding magnitude
     \<and> length content \<le> Suc (length magnitude)"
  by (cases magnitude) (auto simp: der_integer_def)

lemma DerConvert_returns_integers:
  assumes "length (sig_r v) < 2 ^ 31" and "length (sig_s v) < 2 ^ 31"
  shows "\<exists>parsed. parse DerConvert (serialize DerConvert v) = Inr parsed
           \<and> removePadding (sig_r parsed) = removePadding (sig_r v)
           \<and> removePadding (sig_s parsed) = removePadding (sig_s v)"
proof -
  obtain r where r: "der_integer (sig_r v) = der_tlv 2 r"
    "removePadding r = removePadding (sig_r v)" "length r \<le> Suc (length (sig_r v))"
    using der_integer_content by blast
  obtain s where s: "der_integer (sig_s v) = der_tlv 2 s"
    "removePadding s = removePadding (sig_s v)" "length s \<le> Suc (length (sig_s v))"
    using der_integer_content by blast
  from assms r(3) s(3) have lr: "length r < 2 ^ 32" and ls: "length s < 2 ^ 32"
    by simp_all
  from lr ls have lr': "length r < 2 ^ 64" and ls': "length s < 2 ^ 64"
    by simp_all
  have "length (der_tlv 2 r @ der_tlv 2 s) \<le> length r + length s + 20"
    using length_der_tlv [OF lr, of 2] length_der_tlv [OF ls, of 2] by simp
  with lr ls have lc: "length (der_tlv 2 r @ der_tlv 2 s) < 2 ^ 64"
    by simp
  have outer: "der_read 48 (der_serialize v) = Inr (der_tlv 2 r @ der_tlv 2 s, [])"
    using der_read_der_tlv [OF lc, of 48 "[]"] by (simp add: der_serialize_def r(1) s(1))
  have first: "der_read 2 (der_tlv 2 r @ der_tlv 2 s) = Inr (r, der_tlv 2 s)"
    by (rule der_read_der_tlv [OF lr'])
  have second: "der_read 2 (der_tlv 2 s) = Inr (s, [])"
    using der_read_der_tlv [OF ls', of 2 "[]"] by simp
  have "der_parse (der_serialize v) = Inr \<lparr>sig_r = r, sig_s = s\<rparr>"
    by (simp add: der_parse_def outer first second)
  with r(2) s(2) show ?thesis
    by (simp add: DerConvert_def)
qed

text \<open>
  With this codec the round trip holds for every raw signature of the right length.
\<close>

lemma DerConvert_roundtrip:
  assumes "algorithm ''name'' = Some (JString ''ECDSA'')"
    and "length R = pointSizeOf sizes algorithm" and "length S = pointSizeOf sizes algorithm"
    and "pointSizeOf sizes algorithm < 2 ^ 31"
  shows "\<exists>structured.
           toAsnSignature DerConvert sizes algorithm (R @ S) = Some structured
           \<and> toWebSignature DerConvert sizes algorithm structured = Inr (Some (R @ S))"
proof -
  let ?v = "\<lparr>sig_r = removePadding R, sig_s = removePadding S\<rparr>"
  have "length (sig_r ?v) < 2 ^ 31" "length (sig_s ?v) < 2 ^ 31"
    using assms(2-4) removePadding_length [of R] removePadding_length [of S] by simp_all
  then obtain parsed where p: "parse DerConvert (serialize DerConvert ?v) = Inr parsed"
    "removePadding (sig_r parsed) = removePadding (sig_r ?v)"
    "removePadding (sig_s parsed) = removePadding (sig_s ?v)"
    using DerConvert_returns_integers [of ?v] by blast
  from p(2,3) have q: "removePadding (sig_r parsed) = removePadding R"
    "removePadding (sig_s parsed) = removePadding S"
    by (simp_all add: removePadding_idem)
  from transcode_roundtrip [where algorithm = algorithm and sizes = sizes and asn = DerConvert,
      OF assms(1-3) p(1) q]
  show ?thesis by simp
qed

section \<open>The round trip of a raw signature\<close>

text \<open>
  C1. Take a curve whose registered point size is \<open>P > 0\<close> and a raw signature
  \<open>R @ S\<close> whose two coordinates have \<open>P\<close> octets each: every pair of numbers below
  \<open>2 ^ (8 * P)\<close>, written big-endian and padded with zeros on the left, is such a pair
  of octet lists, the all-zero coordinate and a coordinate with the high bit of its first
  octet set among them. Under an ECDSA algorithm of that curve, \<open>toAsnSignature\<close>
  returns a structured signature, and \<open>toWebSignature\<close> applied to it returns exactly
  \<open>R @ S\<close>. The external codec enters with what it is specified to do: parsing what
  it serialized for the two stripped magnitudes gives back integers of the same values,
  that is, the same octets up to leading zeros.
\<close>

theorem signature_roundtrip:
  assumes "algorithm ''name'' = Some (JString ''ECDSA'')"
    and "algorithm ''namedCurve'' = Some (JString curve)"
    and "sizes curve = Some P" and "0 < P"
    and "length R = P" and "length S = P"
    and "parse asn (serialize asn \<lparr>sig_r = removePadding R, sig_s = removePadding S\<rparr>)
           = Inr parsed"
    and "removePadding (sig_r parsed) = removePadding R"
    and "removePadding (sig_s parsed) = removePadding S"
  shows "\<exists>structured.
           toAsnSignature asn sizes algorithm (R @ S) = Some structured
           \<and> toWebSignature asn sizes algorithm structured = Inr (Some (R @ S))"
proof -
  have size: "pointSizeOf sizes algorithm = P"
    using assms(2-4) by (rule pointSizeOf_registered)
  have lens: "length R = pointSizeOf sizes algorithm" "length S = pointSizeOf sizes algorithm"
    using size assms(5,6) by simp_all
  from transcode_roundtrip [where algorithm = algorithm and sizes = sizes, OF assms(1) lens assms(7-9)]
  show ?thesis by simp
qed

theorem signature_roundtrip_witness:
  "\<exists>structured.
     toAsnSignature DerConvert [''P-256'' \<mapsto> 32]
       [''name'' \<mapsto> JString ''ECDSA'', ''namedCurve'' \<mapsto> JString ''P-256'']
       (replicate 32 0 @ (255 # replicate 31 1)) = Some structured
     \<and> toWebSignature DerConvert [''P-256'' \<mapsto> 32]
         [''name'' \<mapsto> JString ''ECDSA'', ''namedCurve'' \<mapsto> JString ''P-256'']
         structured
       = Inr (Some (replicate 32 0 @ (255 # replicate 31 1)))"
proof -
  let ?alg = "[''name'' \<mapsto> JString ''ECDSA'', ''namedCurve'' \<mapsto> JString ''P-256'']"
  let ?R = "replicate 32 0 :: bytes"
  let ?S = "255 # replicate 31 1 :: bytes"
  have h1: "?alg ''name'' = Some (JString ''ECDSA'')" by simp
  have h2: "?alg ''namedCurve'' = Some (JString ''P-256'')" by simp
  have h3: "[''P-256'' \<mapsto> (32::nat)] ''P-256'' = Some 32" by simp
  have h4: "0 < (32::nat)" by simp
  have h5: "length ?R = 32" by simp
  have h6: "length ?S = 32" by simp
  have h7: "parse DerConvert
              (serialize DerConvert \<lparr>sig_r = removePadding ?R, sig_s = removePadding ?S\<rparr>)
            = Inr \<lparr>sig_r = [0], sig_s = 0 # ?S\<rparr>"
    by code_simp
  have h8: "removePadding (sig_r \<lparr>sig_r = [0], sig_s = 0 # ?S\<rparr>) = removePadding ?R"
    by code_simp
  have h9: "removePadding (sig_s \<lparr>sig_r = [0], sig_s = 0 # ?S\<rparr>) = removePadding ?S"
    by code_simp
  show ?thesis
    by (rule signature_roundtrip [where algorithm = ?alg and sizes = "[''P-256'' \<mapsto> 32]",
          OF h1 h2 h3 h4 h5 h6 h7 h8 h9])
qed

section \<open>The fallback point size\<close>

text \<open>
  C5. For a curve name without an entry in the point-size table, both directions work
  with the fallback of 32 octets: \<open>toAsnSignature\<close> slices at 32 and 64, and
  \<open>toWebSignature\<close> pads each integer to 32 octets. A raw signature of 64 octets is
  split into its two halves of 32 octets; \<open>toAsnSignature\<close> returns a structured
  signature for it, and, the codec returning the integers it serialized,
  \<open>toWebSignature\<close> returns the 64 octets again.
\<close>
theorem unregistered_curve_default:
  assumes "algorithm ''name'' = Some (JString ''ECDSA'')"
    and "algorithm ''namedCurve'' = Some (JString curve)"
    and "sizes curve = None"
  shows "toAsnSignature asn sizes algorithm sg
           = Some (serialize asn \<lparr>sig_r = removePadding (take 32 sg),
                                   sig_s = removePadding (take 32 (drop 32 sg))\<rparr>)
         \<and> toWebSignature asn sizes algorithm structured
           = and_then (parse asn structured) (\<lambda>v.
             and_then (addPadding 32 (removePadding (sig_r v))) (\<lambda>r.
             and_then (addPadding 32 (removePadding (sig_s v))) (\<lambda>s.
             Inr (Some (r @ s)))))
         \<and> (length R = 32 \<and> length S = 32 \<longrightarrow>
              toAsnSignature asn sizes algorithm (R @ S)
                = Some (serialize asn \<lparr>sig_r = removePadding R, sig_s = removePadding S\<rparr>))
         \<and> (length R = 32 \<and> length S = 32
              \<and> parse asn (serialize asn \<lparr>sig_r = removePadding R, sig_s = removePadding S\<rparr>)
                  = Inr parsed
              \<and> removePadding (sig_r parsed) = removePadding R
              \<and> removePadding (sig_s parsed) = removePadding S \<longrightarrow>
              toWebSignature asn sizes algorithm
                (serialize asn \<lparr>sig_r = removePadding R, sig_s = removePadding S\<rparr>)
                = Inr (Some (R @ S)))"
proof -
  have size: "pointSizeOf sizes algorithm = 32"
    using assms(2,3) by (rule pointSizeOf_unregistered)
  have a: "toAsnSignature asn sizes algorithm sg
           = Some (serialize asn \<lparr>sig_r = removePadding (take 32 sg),
                                   sig_s = removePadding (take 32 (drop 32 sg))\<rparr>)" for sg
    using assms(1) size by (simp add: toAsnSignature_ECDSA)
  have b: "toWebSignature asn sizes algorithm structured
           = and_then (parse asn structured) (\<lambda>v.
             and_then (addPadding 32 (removePadding (sig_r v))) (\<lambda>r.
             and_then (addPadding 32 (removePadding (sig_s v))) (\<lambda>s.
             Inr (Some (r @ s)))))"
    using assms(1) size by (simp add: toWebSignature_ECDSA)
  have c: "toAsnSignature asn sizes algorithm (R @ S)
             = Some (serialize asn \<lparr>sig_r = removePadding R, sig_s = removePadding S\<rparr>)"
    if "length R = 32" "length S = 32"
    using that by (simp add: a)
  have d: "toWebSignature asn sizes algorithm
             (serialize asn \<lparr>sig_r = removePadding R, sig_s = removePadding S\<rparr>)
             = Inr (Some (R @ S))"
    if "length R = 32" "length S = 32"
      "parse asn (serialize asn \<lparr>sig_r = removePadding R, sig_s = removePadding S\<rparr>) = Inr parsed"
      "removePadding (sig_r parsed) = removePadding R"
      "removePadding (sig_s parsed) = removePadding S"
    using transcode_roundtrip(2) [where algorithm = algorithm and sizes = sizes and R = R and S = S
        and asn = asn and parsed = parsed] assms(1) size that
    by simp
  from a b c d show ?thesis by blast
qed

theorem unregistered_curve_default_witness:
  "toAsnSignature DerConvert [''P-256'' \<mapsto> 32]
     [''name'' \<mapsto> JString ''ECDSA'', ''namedCurve'' \<mapsto> JString ''K-256'']
     (replicate 31 0 @ [7] @ replicate 32 9)
   = Some (serialize DerConvert \<lparr>sig_r = [7], sig_s = replicate 32 9\<rparr>)
   \<and> toWebSignature DerConvert [''P-256'' \<mapsto> 32]
       [''name'' \<mapsto> JString ''ECDSA'', ''namedCurve'' \<mapsto> JString ''K-256'']
       (serialize DerConvert \<lparr>sig_r = [7], sig_s = replicate 32 9\<rparr>)
     = Inr (Some (replicate 31 0 @ [7] @ replicate 32 9))"
proof -
  let ?alg = "[''name'' \<mapsto> JString ''ECDSA'', ''namedCurve'' \<mapsto> JString ''K-256'']"
  let ?sizes = "[''P-256'' \<mapsto> (32::nat)]"
  let ?R = "replicate 31 0 @ [7] :: bytes"
  let ?S = "replicate 32 9 :: bytes"
  have h1: "?alg ''name'' = Some (JString ''ECDSA'')" by simp
  have h2: "?alg ''namedCurve'' = Some (JString ''K-256'')" by simp
  have h3: "?sizes ''K-256'' = None" by simp
  have l: "length ?R = 32 \<and> length ?S = 32" by simp
  have rs: "removePadding ?R = [7]" "removePadding ?S = ?S" by code_simp+
  have p: "parse DerConvert
             (serialize DerConvert \<lparr>sig_r = removePadding ?R, sig_s = removePadding ?S\<rparr>)
           = Inr \<lparr>sig_r = [7], sig_s = ?S\<rparr>"
    by code_simp
  have v: "removePadding (sig_r \<lparr>sig_r = [7], sig_s = ?S\<rparr>) = removePadding ?R"
    "removePadding (sig_s \<lparr>sig_r = [7], sig_s = ?S\<rparr>) = removePadding ?S"
    by code_simp+
  note t = unregistered_curve_default [where algorithm = ?alg and sizes = ?sizes and R = ?R
      and S = ?S and asn = DerConvert and parsed = "\<lparr>sig_r = [7], sig_s = ?S\<rparr>", OF h1 h2 h3]
  from t l have a: "toAsnSignature DerConvert ?sizes ?alg (?R @ ?S)
      = Some (serialize DerConvert \<lparr>sig_r = removePadding ?R, sig_s = removePadding ?S\<rparr>)"
    by blast
  from t l p v have b: "toWebSignature DerConvert ?sizes ?alg
        (serialize DerConvert \<lparr>sig_r = removePadding ?R, sig_s = removePadding ?S\<rparr>)
      = Inr (Some (?R @ ?S))"
    by blast
  from a b show ?thesis by (simp add: rs)
qed

section \<open>An integer too large for the curve\<close>

text \<open>
  C8. In \<open>toWebSignature\<close>, when the magnitude of a parsed integer, its leading zero
  octets stripped, has more octets than the point size of the curve, the call fails:
  \<open>set\<close> in \<open>addPadding\<close> gets a negative offset and throws a \<open>RangeError\<close>.
  Nothing is cut down to the point size.
\<close>
theorem toWebSignature_oversized:
  assumes "algorithm ''name'' = Some (JString ''ECDSA'')"
    and "parse asn structured = Inr v"
    and "pointSizeOf sizes algorithm < length (removePadding (sig_r v))
         \<or> pointSizeOf sizes algorithm < length (removePadding (sig_s v))"
  shows "toWebSignature asn sizes algorithm structured = Inl RangeError"
proof (cases "pointSizeOf sizes algorithm < length (removePadding (sig_r v))")
  case True
  then have "addPadding (pointSizeOf sizes algorithm) (removePadding (sig_r v)) = Inl RangeError"
    by (rule addPadding_too_long)
  with assms(1,2) show ?thesis
    by (simp add: toWebSignature_ECDSA)
next
  case False
  then have "addPadding (pointSizeOf sizes algorithm) (removePadding (sig_r v))
             = Inr (replicate (pointSizeOf sizes algorithm - length (removePadding (sig_r v))) 0
                    @ removePadding (sig_r v))"
    by (simp add: addPadding_fits)
  moreover from False assms(3)
  have "addPadding (pointSizeOf sizes algorithm) (removePadding (sig_s v)) = Inl RangeError"
    by (simp add: addPadding_too_long)
  ultimately show ?thesis
    using assms(1,2) by (simp add: toWebSignature_ECDSA)
qed

theorem toWebSignature_oversized_witness:
  "parse DerConvert (serialize DerConvert \<lparr>sig_r = replicate 33 1, sig_s = [1]\<rparr>)
     = Inr \<lparr>sig_r = replicate 33 1, sig_s = [1]\<rparr>
   \<and> toWebSignature DerConvert [''P-256'' \<mapsto> 32]
       [''name'' \<mapsto> JString ''ECDSA'', ''namedCurve'' \<mapsto> JString ''P-256'']
       (serialize DerConvert \<lparr>sig_r = replicate 33 1, sig_s = [1]\<rparr>)
     = Inl RangeError"
proof -
  let ?alg = "[''name'' \<mapsto> JString ''ECDSA'', ''namedCurve'' \<mapsto> JString ''P-256'']"
  let ?sizes = "[''P-256'' \<mapsto> (32::nat)]"
  let ?v = "\<lparr>sig_r = replicate 33 1 :: bytes, sig_s = [1] :: bytes\<rparr>"
  have h1: "?alg ''name'' = Some (JString ''ECDSA'')" by simp
  have h2: "parse DerConvert (serialize DerConvert ?v) = Inr ?v" by code_simp
  have h3: "pointSizeOf ?sizes ?alg < length (removePadding (sig_r ?v))
            \<or> pointSizeOf ?sizes ?alg < length (removePadding (sig_s ?v))"
    by code_simp
  from toWebSignature_oversized [where algorithm = ?alg and sizes = ?sizes, OF h1 h2 h3] h2
  show ?thesis by simp
qed

section \<open>No check of the length of a raw signature\<close>

text \<open>
  C10. Under an ECDSA algorithm \<open>toAsnSignature\<close> returns a structured signature for
  every input, whatever its length: the two integers are what lies in the first and the
  second \<open>pointSize\<close> octets, stripped. An input of at most \<open>pointSize\<close> octets
  gives the empty magnitude for the second integer (and for the first one too when the
  input is empty or all zero), and the octets behind \<open>2 * pointSize\<close> have no
  effect on the result.
\<close>
theorem toAsnSignature_any_length:
  assumes "algorithm ''name'' = Some (JString ''ECDSA'')"
  shows "toAsnSignature asn sizes algorithm sg
           = Some (serialize asn
               \<lparr>sig_r = removePadding (take (pointSizeOf sizes algorithm) sg),
                sig_s = removePadding (take (pointSizeOf sizes algorithm)
                          (drop (pointSizeOf sizes algorithm) sg))\<rparr>)
         \<and> (length sg \<le> pointSizeOf sizes algorithm \<longrightarrow>
              toAsnSignature asn sizes algorithm sg
                = Some (serialize asn \<lparr>sig_r = removePadding sg, sig_s = []\<rparr>))
         \<and> (2 * pointSizeOf sizes algorithm \<le> length sg \<longrightarrow>
              toAsnSignature asn sizes algorithm (sg @ extra)
                = toAsnSignature asn sizes algorithm sg)"
  using assms by (simp add: toAsnSignature_ECDSA)

theorem toAsnSignature_any_length_witness:
  "toAsnSignature DerConvert [''P-256'' \<mapsto> 32]
     [''name'' \<mapsto> JString ''ECDSA'', ''namedCurve'' \<mapsto> JString ''P-256''] [0, 5, 6]
     = Some (serialize DerConvert \<lparr>sig_r = [5, 6], sig_s = []\<rparr>)
   \<and> toAsnSignature DerConvert [''P-256'' \<mapsto> 32]
       [''name'' \<mapsto> JString ''ECDSA'', ''namedCurve'' \<mapsto> JString ''P-256'']
       (replicate 64 1 @ [2, 3])
     = toAsnSignature DerConvert [''P-256'' \<mapsto> 32]
         [''name'' \<mapsto> JString ''ECDSA'', ''namedCurve'' \<mapsto> JString ''P-256'']
         (replicate 64 1)"
proof -
  let ?alg = "[''name'' \<mapsto> JString ''ECDSA'', ''namedCurve'' \<mapsto> JString ''P-256'']"
  let ?sizes = "[''P-256'' \<mapsto> (32::nat)]"
  have h1: "?alg ''name'' = Some (JString ''ECDSA'')" by simp
  have size: "pointSizeOf ?sizes ?alg = 32" by code_simp
  have short: "length [0, 5, 6 :: 8 word] \<le> pointSizeOf ?sizes ?alg"
    by (simp add: size)
  have long: "2 * pointSizeOf ?sizes ?alg \<le> length (replicate 64 1 :: bytes)"
    by (simp add: size)
  note t = toAsnSignature_any_length [where algorithm = ?alg and sizes = ?sizes
      and asn = DerConvert, OF h1]
  from t [where sg = "[0, 5, 6]"] short
  have a: "toAsnSignature DerConvert ?sizes ?alg [0, 5, 6]
           = Some (serialize DerConvert \<lparr>sig_r = [5, 6], sig_s = []\<rparr>)"
    by simp
  from t [where sg = "replicate 64 1" and extra = "[2, 3]"] long
  have b: "toAsnSignature DerConvert ?sizes ?alg (replicate 64 1 @ [2, 3])
           = toAsnSignature DerConvert ?sizes ?alg (replicate 64 1)"
    by blast
  from a b show ?thesis by simp
qed

section \<open>The steps of the generator\<close>

lemma and_then_Inr_iff: "and_then m f = Inr y \<longleftrightarrow> (\<exists>x. m = Inr x \<and> f x = Inr y)"
  by (cases m) simp_all

lemma create_sign_Inr:
  assumes "create_sign ext params = Inr (asnX509, sg)"
  shows "toAsnAlgorithm ext (mergedSigningAlgorithm params) = Inr (signatureAlgorithm asnX509)"
    and "tbs_signature (tbsCertificate asnX509) = signatureAlgorithm asnX509"
    and "sign ext (mergedSigningAlgorithm params) (signingKey params)
           (serializeTBSCertificate ext (tbsCertificate asnX509)) = Inr sg"
  using assms
  by (auto simp: create_sign_def Let_def and_then_Inr_iff)

lemma formatters_loop_declining:
  assumes "\<forall>f \<in> set fs. fmt_toAsnSignature f algorithm sg = Inr None"
  shows "formatters_loop (fs @ rest) algorithm sg = formatters_loop rest algorithm sg"
  using assms by (induction fs) simp_all

lemma formatters_loop_last_accepting:
  assumes "fmt_toAsnSignature F algorithm sg = Inr (Some a)"
    and "\<forall>f \<in> set later. fmt_toAsnSignature f algorithm sg = Inr None"
  shows "formatters_loop (rev (earlier @ [F] @ later)) algorithm sg = Inr (Some a)"
proof -
  have "formatters_loop (rev later @ F # rev earlier) algorithm sg
        = formatters_loop (F # rev earlier) algorithm sg"
    using assms(2) by (intro formatters_loop_declining) simp
  with assms(1) show ?thesis by simp
qed

lemma create_asnX509_unfold:
  assumes "create_sign ext params = Inr (asnX509, sg)"
  shows "create_asnX509 ext params =
           and_then (convert_signature ext (mergedSigningAlgorithm params) sg)
             (\<lambda>a. Inr (asnX509\<lparr>signatureValue := a\<rparr>))"
  using assms by (simp add: create_asnX509_def)

lemma create_asnX509_fields:
  assumes "create_asnX509 ext params = Inr asnX509"
  shows "tbs_signature (tbsCertificate asnX509) = signatureAlgorithm asnX509"
    and "toAsnAlgorithm ext (mergedSigningAlgorithm params) = Inr (signatureAlgorithm asnX509)"
proof -
  from assms obtain cert_asn sg a where
    s: "create_sign ext params = Inr (cert_asn, sg)" and
    r: "asnX509 = cert_asn\<lparr>signatureValue := a\<rparr>"
    by (auto simp: create_asnX509_def and_then_Inr_iff)
  from create_sign_Inr(2) [OF s] r
  show "tbs_signature (tbsCertificate asnX509) = signatureAlgorithm asnX509" by simp
  from create_sign_Inr(1) [OF s] r
  show "toAsnAlgorithm ext (mergedSigningAlgorithm params) = Inr (signatureAlgorithm asnX509)"
    by simp
qed

lemma create_Inr:
  assumes "create ext params = Inr cert"
  shows "\<exists>asnX509.
           create_asnX509 ext params = Inr asnX509
           \<and> newX509Certificate ext (serializeCertificate ext asnX509) = Inr cert
           \<and> tbs_signature (tbsCertificate asnX509) = signatureAlgorithm asnX509
           \<and> toAsnAlgorithm ext (mergedSigningAlgorithm params)
               = Inr (signatureAlgorithm asnX509)"
proof -
  from assms obtain asnX509 where
    a: "create_asnX509 ext params = Inr asnX509" and
    c: "newX509Certificate ext (serializeCertificate ext asnX509) = Inr cert"
    by (auto simp: create_def and_then_Inr_iff)
  from a c create_asnX509_fields [OF a] show ?thesis by blast
qed

section \<open>The order in which the formatters are tried\<close>

text \<open>
  C3. The generator tries the registered formatters from the one registered last to the
  one registered first and takes the first result that is not \<open>null\<close>. So when \<open>F2\<close>
  accepts the algorithm and every formatter registered after it declines, the result of
  \<open>F2\<close> becomes the signature value of the certificate, whatever the formatters
  registered before \<open>F2\<close> would return: with \<open>F1\<close> registered first and \<open>F2\<close>
  second, both accepting, it is the result of \<open>F2\<close>.
\<close>

theorem last_registered_formatter_wins:
  assumes "create_sign ext params = Inr (asnX509, sg)"
    and "resolveAllSignatureFormatters ext = Inr (earlier @ [F2] @ later)"
    and "fmt_toAsnSignature F2 (mergedSigningAlgorithm params) sg = Inr (Some a2)"
    and "\<forall>f \<in> set later. fmt_toAsnSignature f (mergedSigningAlgorithm params) sg = Inr None"
  shows "convert_signature ext (mergedSigningAlgorithm params) sg = Inr a2
         \<and> create_asnX509 ext params = Inr (asnX509\<lparr>signatureValue := a2\<rparr>)
         \<and> create ext params
             = newX509Certificate ext (serializeCertificate ext (asnX509\<lparr>signatureValue := a2\<rparr>))"
proof -
  have loop: "formatters_loop (rev (earlier @ [F2] @ later)) (mergedSigningAlgorithm params) sg
              = Inr (Some a2)"
    using assms(3,4) by (rule formatters_loop_last_accepting)
  have conv: "convert_signature ext (mergedSigningAlgorithm params) sg = Inr a2"
    unfolding convert_signature_def Let_def using assms(2) loop by simp
  have asn: "create_asnX509 ext params = Inr (asnX509\<lparr>signatureValue := a2\<rparr>)"
    by (simp add: create_asnX509_unfold [OF assms(1)] conv)
  from conv asn show ?thesis by (simp add: create_def)
qed

theorem last_registered_formatter_wins_witness:
  "fmt_toAsnSignature formatter_F1
     (mergedSigningAlgorithm ec_request) (replicate 32 1 @ replicate 32 2) = Inr (Some [1])
   \<and> fmt_toAsnSignature formatter_F2
       (mergedSigningAlgorithm ec_request) (replicate 32 1 @ replicate 32 2) = Inr (Some [2])
   \<and> create (stub_externals (Inr [formatter_F1, formatter_F2])) ec_request
     = Inr (X509Certificate [2])"
proof -
  let ?ext = "stub_externals (Inr [formatter_F1, formatter_F2])"
  let ?sg = "replicate 32 1 @ replicate 32 2 :: bytes"
  let ?asn = "\<lparr>tbsCertificate =
                 \<lparr>tbs_version = v3, tbs_serialNumber = [16],
                  tbs_signature = \<lparr>alg_algorithm = ''ECDSA'', alg_parameters = None\<rparr>,
                  tbs_issuer = [[1]],
                  tbs_validity = \<lparr>val_notBefore = 0, val_notAfter = 86400000\<rparr>,
                  tbs_subject = [[1]], tbs_subjectPublicKeyInfo = [4],
                  tbs_extensions = []\<rparr>,
               signatureAlgorithm = \<lparr>alg_algorithm = ''ECDSA'', alg_parameters = None\<rparr>,
               signatureValue = []\<rparr>"
  have h1: "create_sign ?ext ec_request = Inr (?asn, ?sg)" by code_simp
  have h2: "resolveAllSignatureFormatters ?ext = Inr ([formatter_F1] @ [formatter_F2] @ [])"
    by (simp add: stub_externals_def)
  have h3: "fmt_toAsnSignature formatter_F2 (mergedSigningAlgorithm ec_request) ?sg
            = Inr (Some [2])"
    by (simp add: formatter_F2_def)
  have h4: "\<forall>f \<in> set []. fmt_toAsnSignature f (mergedSigningAlgorithm ec_request) ?sg = Inr None"
    by simp
  have f1: "fmt_toAsnSignature formatter_F1 (mergedSigningAlgorithm ec_request) ?sg
            = Inr (Some [1])"
    by (simp add: formatter_F1_def)
  have out: "newX509Certificate ?ext (serializeCertificate ?ext (?asn\<lparr>signatureValue := [2]\<rparr>))
             = Inr (X509Certificate [2])"
    by (simp add: stub_externals_def)
  from last_registered_formatter_wins [OF h1 h2 h3 h4] out f1 h3
  show ?thesis by simp
qed

section \<open>No formatter for the algorithm\<close>

text \<open>
  C4. When the signature has been made and every registered formatter returns \<open>null\<close>
  for the signing algorithm and this signature, \<open>create\<close> throws the error of the
  failed conversion; no certificate is built, and no conversion is made up.
\<close>

theorem all_formatters_decline:
  assumes "create_sign ext params = Inr (asnX509, sg)"
    and "resolveAllSignatureFormatters ext = Inr registered"
    and "\<forall>f \<in> set registered.
           fmt_toAsnSignature f (mergedSigningAlgorithm params) sg = Inr None"
  shows "create ext params
           = Inl (Error ''Cannot convert ASN.1 signature value to WebCrypto format'')"
proof -
  have "formatters_loop (rev registered @ []) (mergedSigningAlgorithm params) sg
        = formatters_loop [] (mergedSigningAlgorithm params) sg"
    using assms(3) by (intro formatters_loop_declining) simp
  then have loop: "formatters_loop (rev registered) (mergedSigningAlgorithm params) sg = Inr None"
    by simp
  have "convert_signature ext (mergedSigningAlgorithm params) sg
        = Inl (Error ''Cannot convert ASN.1 signature value to WebCrypto format'')"
    unfolding convert_signature_def Let_def using assms(2) loop by simp
  then show ?thesis
    by (simp add: create_def create_asnX509_unfold [OF assms(1)])
qed

theorem all_formatters_decline_witness:
  "create (stub_externals (Inr [formatter_declining, AsnEcSignatureFormatter DerConvert Map.empty]))
     rsa_request
   = Inl (Error ''Cannot convert ASN.1 signature value to WebCrypto format'')"
proof -
  let ?reg = "[formatter_declining, AsnEcSignatureFormatter DerConvert Map.empty]"
  let ?ext = "stub_externals (Inr ?reg)"
  let ?sg = "replicate 32 1 @ replicate 32 2 :: bytes"
  let ?asn = "\<lparr>tbsCertificate =
                 \<lparr>tbs_version = v3, tbs_serialNumber = [16],
                  tbs_signature = \<lparr>alg_algorithm = ''RSASSA-PKCS1-v1_5'', alg_parameters = None\<rparr>,
                  tbs_issuer = [[1]],
                  tbs_validity = \<lparr>val_notBefore = 0, val_notAfter = 86400000\<rparr>,
                  tbs_subject = [[1]], tbs_subjectPublicKeyInfo = [5],
                  tbs_extensions = []\<rparr>,
               signatureAlgorithm = \<lparr>alg_algorithm = ''RSASSA-PKCS1-v1_5'', alg_parameters = None\<rparr>,
               signatureValue = []\<rparr>"
  have h1: "create_sign ?ext rsa_request = Inr (?asn, ?sg)" by code_simp
  have h2: "resolveAllSignatureFormatters ?ext = Inr ?reg"
    by (simp add: stub_externals_def)
  have d1: "fmt_toAsnSignature formatter_declining (mergedSigningAlgorithm rsa_request) ?sg
            = Inr None"
    by (simp add: formatter_declining_def)
  have d2: "fmt_toAsnSignature (AsnEcSignatureFormatter DerConvert Map.empty)
              (mergedSigningAlgorithm rsa_request) ?sg = Inr None"
    by code_simp
  have h3: "\<forall>f \<in> set ?reg. fmt_toAsnSignature f (mergedSigningAlgorithm rsa_request) ?sg = Inr None"
    using d1 d2 by simp
  show ?thesis
    by (rule all_formatters_decline [OF h1 h2 h3])
qed

section \<open>The two signature-algorithm fields\<close>

text \<open>
  C6. Whenever \<open>create\<close> or \<open>createSelfSigned\<close> returns a certificate, the
  structure that was serialized for it has the same algorithm identifier in the
  signature field of its body and in its outer signature-algorithm field: the one
  identifier that the algorithm provider returned for the signing algorithm. The
  serializer therefore writes the same octets for both.
\<close>

theorem signature_algorithm_fields_equal:
  "(create ext params = Inr cert \<longrightarrow>
      (\<exists>asnX509.
         create_asnX509 ext params = Inr asnX509
         \<and> newX509Certificate ext (serializeCertificate ext asnX509) = Inr cert
         \<and> tbs_signature (tbsCertificate asnX509) = signatureAlgorithm asnX509
         \<and> toAsnAlgorithm ext (mergedSigningAlgorithm params)
             = Inr (signatureAlgorithm asnX509)))
   \<and> (createSelfSigned ext self_params = Inr self_cert \<longrightarrow>
      (\<exists>asnX509.
         create_asnX509 ext (selfSignedParams self_params) = Inr asnX509
         \<and> newX509Certificate ext (serializeCertificate ext asnX509) = Inr self_cert
         \<and> tbs_signature (tbsCertificate asnX509) = signatureAlgorithm asnX509
         \<and> toAsnAlgorithm ext (mergedSigningAlgorithm (selfSignedParams self_params))
             = Inr (signatureAlgorithm asnX509)))"
  using create_Inr [of ext params cert]
    create_Inr [of ext "selfSignedParams self_params" self_cert]
  unfolding createSelfSigned_def by blast

theorem signature_algorithm_fields_equal_witness:
  "create (stub_externals (Inr [AsnEcSignatureFormatter DerConvert Map.empty])) ec_request
     = Inr (X509Certificate (der_serialize \<lparr>sig_r = replicate 32 1, sig_s = replicate 32 2\<rparr>))
   \<and> createSelfSigned (stub_externals (Inr [AsnEcSignatureFormatter DerConvert Map.empty]))
       ec_self_signed_request
     = Inr (X509Certificate (der_serialize \<lparr>sig_r = replicate 32 1, sig_s = replicate 32 2\<rparr>))
   \<and> (\<exists>asnX509.
        create_asnX509 (stub_externals (Inr [AsnEcSignatureFormatter DerConvert Map.empty]))
          ec_request = Inr asnX509
        \<and> tbs_signature (tbsCertificate asnX509) = signatureAlgorithm asnX509)
   \<and> (\<exists>asnX509.
        create_asnX509 (stub_externals (Inr [AsnEcSignatureFormatter DerConvert Map.empty]))
          (selfSignedParams ec_self_signed_request) = Inr asnX509
        \<and> tbs_signature (tbsCertificate asnX509) = signatureAlgorithm asnX509)"
proof -
  let ?ext = "stub_externals (Inr [AsnEcSignatureFormatter DerConvert Map.empty])"
  let ?cert = "X509Certificate (der_serialize \<lparr>sig_r = replicate 32 1, sig_s = replicate 32 2\<rparr>)"
  have c1: "create ?ext ec_request = Inr ?cert" by code_simp
  have c2: "createSelfSigned ?ext ec_self_signed_request = Inr ?cert" by code_simp
  note t = signature_algorithm_fields_equal [where ext = ?ext and params = ec_request
      and cert = ?cert and self_params = ec_self_signed_request and self_cert = ?cert]
  from t c1 have a: "\<exists>asnX509. create_asnX509 ?ext ec_request = Inr asnX509
        \<and> tbs_signature (tbsCertificate asnX509) = signatureAlgorithm asnX509"
    by blast
  from t c2 have b: "\<exists>asnX509.
        create_asnX509 ?ext (selfSignedParams ec_self_signed_request) = Inr asnX509
        \<and> tbs_signature (tbsCertificate asnX509) = signatureAlgorithm asnX509"
    by blast
  from c1 c2 a b show ?thesis by blast
qed

section \<open>The signing algorithm that is used\<close>

text \<open>
  C7, as the code has it. The caller of \<open>create\<close> names the hash \<open>SHA-512\<close>, the
  algorithm of the RSA signing key carries \<open>SHA-256\<close>: the merged algorithm has the
  hash of the key. The algorithm of the key does not only fill gaps; it replaces what
  the caller supplied under the same property name.
\<close>

theorem caller_hash_overridden:
  "signingAlgorithm rsa_request ''hash'' = Some (JString ''SHA-512'')
   \<and> key_algorithm (signingKey rsa_request) ''hash''
       = Some (JObject [(''name'', JString ''SHA-256'')])
   \<and> mergedSigningAlgorithm rsa_request ''hash''
       = Some (JObject [(''name'', JString ''SHA-256'')])
   \<and> mergedSigningAlgorithm rsa_request ''hash'' \<noteq> signingAlgorithm rsa_request ''hash''"
  by (simp add: mergedSigningAlgorithm_def rsa_request_def rsa_key_def)

text \<open>
  C7, amended. The signing algorithm that \<open>create\<close> uses is the merge of the caller's
  descriptor with the algorithm of the signing key in which the key comes first: a
  property that the key's algorithm has takes the key's value, and the caller's
  descriptor supplies the properties that the key's algorithm does not have. This merged
  algorithm is the one handed to the algorithm provider for the identifier and to the
  signer together with the signing key and the serialized body.
\<close>

theorem merged_algorithm_key_first:
  "mergedSigningAlgorithm params property
     = (case key_algorithm (signingKey params) property of
          Some v \<Rightarrow> Some v
        | None \<Rightarrow> signingAlgorithm params property)
   \<and> (create_sign ext params = Inr (cert_asn, sg) \<longrightarrow>
        toAsnAlgorithm ext (mergedSigningAlgorithm params) = Inr (signatureAlgorithm cert_asn)
        \<and> sign ext (mergedSigningAlgorithm params) (signingKey params)
            (serializeTBSCertificate ext (tbsCertificate cert_asn)) = Inr sg)"
  using create_sign_Inr(1,3) [of ext params cert_asn sg]
  by (simp add: mergedSigningAlgorithm_def map_add_def)

theorem merged_algorithm_key_first_witness:
  "mergedSigningAlgorithm ec_request ''namedCurve'' = Some (JString ''P-256'')
   \<and> mergedSigningAlgorithm ec_request ''hash'' = Some (JString ''SHA-256'')
   \<and> (\<exists>asnX509 sg.
        create_sign (stub_externals (Inr [])) ec_request = Inr (asnX509, sg)
        \<and> toAsnAlgorithm (stub_externals (Inr [])) (mergedSigningAlgorithm ec_request)
            = Inr (signatureAlgorithm asnX509)
        \<and> sign (stub_externals (Inr [])) (mergedSigningAlgorithm ec_request)
            (signingKey ec_request)
            (serializeTBSCertificate (stub_externals (Inr [])) (tbsCertificate asnX509)) = Inr sg)"
proof -
  let ?ext = "stub_externals (Inr [])"
  let ?sg = "replicate 32 1 @ replicate 32 2 :: bytes"
  let ?asn = "\<lparr>tbsCertificate =
                 \<lparr>tbs_version = v3, tbs_serialNumber = [16],
                  tbs_signature = \<lparr>alg_algorithm = ''ECDSA'', alg_parameters = None\<rparr>,
                  tbs_issuer = [[1]],
                  tbs_validity = \<lparr>val_notBefore = 0, val_notAfter = 86400000\<rparr>,
                  tbs_subject = [[1]], tbs_subjectPublicKeyInfo = [4],
                  tbs_extensions = []\<rparr>,
               signatureAlgorithm = \<lparr>alg_algorithm = ''ECDSA'', alg_parameters = None\<rparr>,
               signatureValue = []\<rparr>"
  have h: "create_sign ?ext ec_request = Inr (?asn, ?sg)" by code_simp
  have k1: "key_algorithm (signingKey ec_request) ''namedCurve'' = Some (JString ''P-256'')"
    by (simp add: ec_request_def ec_key_def)
  have k2: "key_algorithm (signingKey ec_request) ''hash'' = None"
    by (simp add: ec_request_def ec_key_def)
  have k3: "signingAlgorithm ec_request ''hash'' = Some (JString ''SHA-256'')"
    by (simp add: ec_request_def)
  note t = merged_algorithm_key_first [where params = ec_request and ext = ?ext
      and cert_asn = ?asn and sg = ?sg]
  from t [where property = "''namedCurve''"] k1
  have a: "mergedSigningAlgorithm ec_request ''namedCurve'' = Some (JString ''P-256'')"
    by simp
  from t [where property = "''hash''"] k2 k3
  have b: "mergedSigningAlgorithm ec_request ''hash'' = Some (JString ''SHA-256'')"
    by simp
  from t [where property = "''hash''"] h
  have c: "toAsnAlgorithm ?ext (mergedSigningAlgorithm ec_request) = Inr (signatureAlgorithm ?asn)
     \<and> sign ?ext (mergedSigningAlgorithm ec_request) (signingKey ec_request)
         (serializeTBSCertificate ?ext (tbsCertificate ?asn)) = Inr ?sg"
    by blast
  from a b c h show ?thesis by blast
qed

section \<open>The order of the textual formats\<close>

text \<open>
  C2. \<open>toArrayBuffer\<close> returns a buffer as it is. A string is tried as PEM first, then
  as hex, then as base64, then as base64url, and the decoder of the first format that
  matches is the one called: a string that is hex and base64 at once is decoded as
  hex. A string that matches none of them gives the \<open>TypeError\<close> whose message lists
  the formats.
\<close>

theorem toArrayBuffer_priority:
  "toArrayBuffer pem c (BufferSource b) = Inr (Some b)
   \<and> (isPem pem t \<longrightarrow>
        toArrayBuffer pem c (JsString t)
          = and_then (decode pem t) (\<lambda>objects.
              Inr (case objects of [] \<Rightarrow> None | first # others \<Rightarrow> Some first)))
   \<and> (\<not> isPem pem t \<and> isHex c t \<longrightarrow>
        toArrayBuffer pem c (JsString t) = and_then (FromHex c t) (\<lambda>b. Inr (Some b)))
   \<and> (\<not> isPem pem t \<and> isHex c t \<and> isBase64 c t \<longrightarrow>
        toArrayBuffer pem c (JsString t) = and_then (FromHex c t) (\<lambda>b. Inr (Some b)))
   \<and> (\<not> isPem pem t \<and> \<not> isHex c t \<and> isBase64 c t \<longrightarrow>
        toArrayBuffer pem c (JsString t) = and_then (FromBase64 c t) (\<lambda>b. Inr (Some b)))
   \<and> (\<not> isPem pem t \<and> \<not> isHex c t \<and> \<not> isBase64 c t \<and> isBase64Url c t \<longrightarrow>
        toArrayBuffer pem c (JsString t) = and_then (FromBase64Url c t) (\<lambda>b. Inr (Some b)))
   \<and> (\<not> isPem pem t \<and> \<not> isHex c t \<and> \<not> isBase64 c t \<and> \<not> isBase64Url c t \<longrightarrow>
        toArrayBuffer pem c (JsString t)
          = Inl (TypeError
              ''Unsupported format of 'raw' argument. Must be one of DER, PEM, HEX, Base64, or Base4Url''))"
  by (simp add: toArrayBuffer_def)

theorem toArrayBuffer_priority_witness:
  "isHex stub_Convert ''cafe'' \<and> isBase64 stub_Convert ''cafe''
   \<and> toArrayBuffer stub_PemConverter stub_Convert (JsString ''cafe'') = Inr (Some [16])
   \<and> toArrayBuffer stub_PemConverter stub_Convert (JsString ''-----BEGIN X-----'')
       = Inr (Some [48, 0])
   \<and> toArrayBuffer stub_PemConverter stub_Convert (JsString ''MAA='') = Inr (Some [64])
   \<and> toArrayBuffer stub_PemConverter stub_Convert (JsString ''M-_'') = Inr (Some [65])
   \<and> toArrayBuffer stub_PemConverter stub_Convert (JsString ''no format'')
       = Inl (TypeError
           ''Unsupported format of 'raw' argument. Must be one of DER, PEM, HEX, Base64, or Base4Url'')
   \<and> toArrayBuffer stub_PemConverter stub_Convert (BufferSource [48, 0]) = Inr (Some [48, 0])"
proof -
  note t = toArrayBuffer_priority [where pem = stub_PemConverter and c = stub_Convert
      and b = "[48, 0]"]
  have hex: "\<not> isPem stub_PemConverter ''cafe'' \<and> isHex stub_Convert ''cafe''
             \<and> isBase64 stub_Convert ''cafe''"
    by code_simp
  have "FromHex stub_Convert ''cafe'' = Inr [16]" by (simp add: stub_Convert_def)
  with t [where t = "''cafe''"] hex
  have a: "toArrayBuffer stub_PemConverter stub_Convert (JsString ''cafe'') = Inr (Some [16])"
    by simp
  have "isPem stub_PemConverter ''-----BEGIN X-----''" by code_simp
  moreover have "decode stub_PemConverter ''-----BEGIN X-----'' = Inr [[48, 0], [48, 1, 7]]"
    by (simp add: stub_PemConverter_def)
  ultimately
  have b: "toArrayBuffer stub_PemConverter stub_Convert (JsString ''-----BEGIN X-----'')
           = Inr (Some [48, 0])"
    using t [where t = "''-----BEGIN X-----''"] by simp
  have "\<not> isPem stub_PemConverter ''MAA='' \<and> \<not> isHex stub_Convert ''MAA=''
        \<and> isBase64 stub_Convert ''MAA=''"
    by code_simp
  moreover have "FromBase64 stub_Convert ''MAA='' = Inr [64]" by (simp add: stub_Convert_def)
  ultimately
  have c: "toArrayBuffer stub_PemConverter stub_Convert (JsString ''MAA='') = Inr (Some [64])"
    using t [where t = "''MAA=''"] by simp
  have "\<not> isPem stub_PemConverter ''M-_'' \<and> \<not> isHex stub_Convert ''M-_''
        \<and> \<not> isBase64 stub_Convert ''M-_'' \<and> isBase64Url stub_Convert ''M-_''"
    by code_simp
  moreover have "FromBase64Url stub_Convert ''M-_'' = Inr [65]" by (simp add: stub_Convert_def)
  ultimately
  have d: "toArrayBuffer stub_PemConverter stub_Convert (JsString ''M-_'') = Inr (Some [65])"
    using t [where t = "''M-_''"] by simp
  have "\<not> isPem stub_PemConverter ''no format'' \<and> \<not> isHex stub_Convert ''no format''
        \<and> \<not> isBase64 stub_Convert ''no format'' \<and> \<not> isBase64Url stub_Convert ''no format''"
    by code_simp
  with t [where t = "''no format''"]
  have e: "toArrayBuffer stub_PemConverter stub_Convert (JsString ''no format'')
       = Inl (TypeError
           ''Unsupported format of 'raw' argument. Must be one of DER, PEM, HEX, Base64, or Base4Url'')"
    by blast
  from t [where t = "[]"]
  have f: "toArrayBuffer stub_PemConverter stub_Convert (BufferSource [48, 0])
           = Inr (Some [48, 0])"
    by blast
  from hex a b c d e f show ?thesis by blast
qed

section \<open>A text with several PEM objects\<close>

text \<open>
  C9. When the text is PEM and holds several objects, \<open>toArrayBuffer\<close> returns the
  octets of the first one, and the constructor of \<open>PemData\<close> hands exactly these to the
  constructor of \<open>AsnData\<close>. The other objects have no effect and no error is raised
  for them.
\<close>

theorem toArrayBuffer_first_object_only:
  assumes "isPem pem t" and "decode pem t = Inr (first # others)"
  shows "toArrayBuffer pem c (JsString t) = Inr (Some first)
         \<and> PemData_constructor pem c super_raw super_asn (Encoded (JsString t))
             = super_raw (Some first)"
  using assms by (simp add: toArrayBuffer_def PemData_constructor_def)

theorem toArrayBuffer_first_object_only_witness:
  "decode stub_PemConverter ''-----BEGIN A-----'' = Inr [[48, 0], [48, 1, 7]]
   \<and> toArrayBuffer stub_PemConverter stub_Convert (JsString ''-----BEGIN A-----'')
       = Inr (Some [48, 0])
   \<and> PemData_constructor stub_PemConverter stub_Convert Inr (\<lambda>asn. Inr (Some asn))
       (Encoded (JsString ''-----BEGIN A-----''))
       = (Inr (Some [48, 0]) :: js_error + bytes option)"
proof -
  have h1: "isPem stub_PemConverter ''-----BEGIN A-----''" by code_simp
  have h2: "decode stub_PemConverter ''-----BEGIN A-----'' = Inr ([48, 0] # [[48, 1, 7]])"
    by (simp add: stub_PemConverter_def)
  from toArrayBuffer_first_object_only [where c = stub_Convert and super_raw = Inr
      and super_asn = "\<lambda>asn. Inr (Some asn)", OF h1 h2] h2
  show ?thesis by simp
qed

end
